theory Spec2Isabelle
  imports Complex_Main "HOL-Library.AList"
begin

section \<open>Graph Explorer demo API: data model\<close>

text \<open>
  The backend is one Python module (\<^verbatim>\<open>backend/app/main.py\<close>). Its pydantic models
  become records with the fields of the source, in the source's order. Several models
  share field names (\<open>id\<close>, \<open>from_node\<close>, \<open>mean\<close>, \<open>label\<close>, ...), so fields are written
  qualified by their record throughout (\<open>EdgeDetail.id\<close>, \<open>GraphEdge.id\<close>).

  Python's \<open>float\<close> is modelled by \<^typ>\<open>real\<close>: every decimal literal of the source is
  the rational number it denotes and arithmetic is exact. Rounding of IEEE doubles, NaN
  and infinities are outside this model. Python's \<open>str\<close> is \<^typ>\<open>string\<close>; the two
  characters of the source that are not ASCII (an en dash and an "almost equal" sign in
  free-text fields) are given by their UTF-8 bytes. \<open>Optional[str]\<close> is
  \<^typ>\<open>string option\<close>.
\<close>

record ParamSummary =
  mean :: real
  sd :: real
  ci_lower :: real
  ci_upper :: real

record EvidenceItem =
  id :: string
  title :: string
  summary :: string
  effect_direction :: string
  population :: string
  design :: string
  outcome_measures :: "string list"
  doi :: "string option"
  quality :: "string option"
  "notes" :: "string option"

record EdgeDetail =
  id :: string
  from_node :: string
  to_node :: string
  status :: string
  param :: ParamSummary
  evidence :: "EvidenceItem list"

record GraphNode =
  id :: string
  label :: string
  level :: string
  group :: "string option"
  description :: "string option"

record GraphEdge =
  id :: string
  from_node :: string
  to_node :: string
  status :: string
  param :: ParamSummary

record GraphPayload =
  nodes :: "GraphNode list"
  edges :: "GraphEdge list"

record PredictRequest =
  wood_coverage :: real
  plant_density :: real
  spatial_clutter :: real
  glare_index :: real

record NodePrediction =
  node_id :: string
  label :: string
  mean :: real
  ci_lower :: real
  ci_upper :: real

record PredictResponse =
  model_a :: "NodePrediction list"
  model_b :: "NodePrediction list"

text \<open>\<open>HTTPException(status_code, detail)\<close>, the only error the module raises.\<close>

datatype http_error = HTTPException nat string

section \<open>Demo graph definition\<close>

definition en_dash :: string where
  "en_dash = [CHR 0xE2, CHR 0x80, CHR 0x93]"

definition almost_equal_sign :: string where
  "almost_equal_sign = [CHR 0xE2, CHR 0x89, CHR 0x88]"

definition NODES :: "GraphNode list" where
  "NODES = [
     \<lparr>GraphNode.id = ''wood_coverage'', GraphNode.label = ''Wood Coverage'',
      level = ''attribute'', group = Some ''materials'',
      description = Some (''Proportion of visible wall/ceiling area finished in wood (0''
        @ en_dash @ ''1).'')\<rparr>,
     \<lparr>GraphNode.id = ''plant_density'', GraphNode.label = ''Plant Density'',
      level = ''attribute'', group = Some ''biophilia'',
      description = Some (''Visible density of indoor plants or green features (0''
        @ en_dash @ ''1).'')\<rparr>,
     \<lparr>GraphNode.id = ''spatial_clutter'', GraphNode.label = ''Spatial Clutter'',
      level = ''attribute'', group = Some ''layout'',
      description = Some ''Visual and physical clutter / obstruction in the space.''\<rparr>,
     \<lparr>GraphNode.id = ''glare_index'', GraphNode.label = ''Glare Index'',
      level = ''attribute'', group = Some ''lighting'',
      description = Some ''Subjective glare / harshness of lighting.''\<rparr>,
     \<lparr>GraphNode.id = ''perceived_warmth'', GraphNode.label = ''Perceived Warmth'',
      level = ''mediator'', group = Some ''perceptual'',
      description = Some ''Subjective thermal / visual warmth of the space.''\<rparr>,
     \<lparr>GraphNode.id = ''perceived_naturalness'', GraphNode.label = ''Perceived Naturalness'',
      level = ''mediator'', group = Some ''perceptual'',
      description = Some ''Degree to which the space feels natural / biophilic.''\<rparr>,
     \<lparr>GraphNode.id = ''cognitive_load'', GraphNode.label = ''Cognitive Load'',
      level = ''mediator'', group = Some ''cognitive'',
      description = Some ''Momentary mental effort required to function in the space.''\<rparr>,
     \<lparr>GraphNode.id = ''positive_affect'', GraphNode.label = ''Positive Affect'',
      level = ''mediator'', group = Some ''affective'',
      description = Some ''Momentary positive mood / calmness / pleasure.''\<rparr>,
     \<lparr>GraphNode.id = ''state_anxiety'', GraphNode.label = ''State Anxiety'',
      level = ''outcome'', group = Some ''affective'',
      description = Some ''Short-term, situational anxiety level (e.g. STAI-S).''\<rparr>,
     \<lparr>GraphNode.id = ''perceived_stress'', GraphNode.label = ''Perceived Stress'',
      level = ''outcome'', group = Some ''affective'',
      description = Some ''Self-reported stress / tension.''\<rparr>,
     \<lparr>GraphNode.id = ''task_performance'', GraphNode.label = ''Task Performance'',
      level = ''outcome'', group = Some ''cognitive'',
      description = Some ''Performance on a sustained attention / working-memory task.''\<rparr>
   ]"

subsection \<open>The param helper and edge registration\<close>

text \<open>
  \<open>p(mean, sd, ci_width=1.96)\<close>: the default argument is an explicit third argument
  here; \<open>register_edge\<close>, the only caller, leaves it at its default.
\<close>

definition p :: "real \<Rightarrow> real \<Rightarrow> real \<Rightarrow> ParamSummary" where
  "p mean' sd' ci_width =
     \<lparr>ParamSummary.mean = mean', sd = sd',
      ParamSummary.ci_lower = mean' - ci_width * sd',
      ParamSummary.ci_upper = mean' + ci_width * sd'\<rparr>"

text \<open>
  \<open>EDGES\<close> is a Python dict, which keeps insertion order and on assignment to a key it
  already holds replaces the value in place: an association list under
  \<^const>\<open>AList.update\<close>. \<open>register_edge\<close> mutates the global; the model takes the
  store and returns the new one. \<open>evidence or []\<close> turns both \<open>None\<close> and the empty
  list into the empty list. Parameters whose names are field names of a record carry a
  prime.
\<close>

type_synonym edge_store = "(string \<times> EdgeDetail) list"

definition register_edge ::
  "string \<Rightarrow> string \<Rightarrow> string \<Rightarrow> real \<Rightarrow> real \<Rightarrow> string \<Rightarrow> EvidenceItem list option
     \<Rightarrow> edge_store \<Rightarrow> edge_store" where
  "register_edge edge_id from_node' to_node' mean' sd' status' evidence' store =
     AList.update edge_id
       \<lparr>EdgeDetail.id = edge_id, EdgeDetail.from_node = from_node',
        EdgeDetail.to_node = to_node', EdgeDetail.status = status',
        EdgeDetail.param = p mean' sd' 1.96,
        evidence = (case evidence' of None \<Rightarrow> [] | Some [] \<Rightarrow> [] | Some (e # es) \<Rightarrow> e # es)\<rparr>
       store"

subsection \<open>Evidence items of the demo edges\<close>

definition li2021_wood_use :: EvidenceItem where
  "li2021_wood_use =
     \<lparr>EvidenceItem.id = ''li2021_wood_use'',
      title = ''Effect of the degree of wood use on the visual psychological response of wooden indoor spaces'',
      summary = ''Medium wood coverage ('' @ almost_equal_sign @ ''35'' @ en_dash
        @ ''65%) in interiors was associated with higher ratings of naturalness, ''
        @ ''warmth, relaxation, and desire to use the space compared to low coverage.'',
      effect_direction = ''beneficial'',
      population = ''Adults in controlled visual simulation'',
      design = ''Within-subjects lab experiment'',
      outcome_measures = [''Perceived warmth'', ''Perceived relaxation''],
      doi = Some ''10.1007/s00226-021-01320-7'',
      quality = Some ''moderate'',
      notes = Some ''Inverse V-shaped relationship with very high wood coverage reducing comfort.''\<rparr>"

definition jalilzadehazhari2019_wood_surfaces :: EvidenceItem where
  "jalilzadehazhari2019_wood_surfaces =
     \<lparr>EvidenceItem.id = ''jalilzadehazhari2019_wood_surfaces'',
      title = ''Material properties of wooden surfaces used in interiors and their influence on physiological responses'',
      summary = ''Visual exposure to indoor wooden surfaces generally increased feelings of comfort and naturalness, ''
        @ ''with some evidence of reduced sympathetic activation.'',
      effect_direction = ''beneficial'',
      population = ''University students in interior mock-ups'',
      design = ''Lab-based exposure study'',
      outcome_measures = [''Perceived naturalness'', ''Comfort'', ''Physiological arousal''],
      doi = Some ''10.1080/17480272.2019.1575901'',
      quality = Some ''moderate'',
      notes = None\<rparr>"

definition yin2020_biophilic_vr :: EvidenceItem where
  "yin2020_biophilic_vr =
     \<lparr>EvidenceItem.id = ''yin2020_biophilic_vr'',
      title = ''Effects of biophilic indoor environment on stress and anxiety recovery: A VR experiment'',
      summary = ''VR offices with biophilic elements (plants, natural materials) produced greater reductions in stress ''
        @ ''and anxiety compared to a non-biophilic office.'',
      effect_direction = ''beneficial'',
      population = ''100 adults in virtual office environments'',
      design = ''Between-subjects VR experiment'',
      outcome_measures = [''State anxiety'', ''Heart rate variability'', ''Skin conductance''],
      doi = Some ''10.1016/j.envint.2019.105427'',
      quality = Some ''high'',
      notes = None\<rparr>"

definition lee2015_indoor_plants :: EvidenceItem where
  "lee2015_indoor_plants =
     \<lparr>EvidenceItem.id = ''lee2015_indoor_plants'',
      title = ''Interaction with indoor plants may reduce psychological and physiological stress'',
      summary = ''Active interaction with indoor plants lowered diastolic blood pressure and sympathetic activity ''
        @ ''relative to a computer task, and increased feelings of comfort and naturalness.'',
      effect_direction = ''beneficial'',
      population = ''Young adults (mean age ~25 years)'',
      design = ''Randomized crossover experiment'',
      outcome_measures = [''Heart rate variability'', ''Blood pressure'', ''Subjective comfort''],
      doi = Some ''10.1186/s40101-015-0060-8'',
      quality = Some ''high'',
      notes = None\<rparr>"

definition yin2020_biophilic_vr_positive :: EvidenceItem where
  "yin2020_biophilic_vr_positive =
     \<lparr>EvidenceItem.id = ''yin2020_biophilic_vr_positive'',
      title = ''Effects of biophilic indoor environment on stress and anxiety recovery: A VR experiment'',
      summary = ''Participants in biophilic conditions reported more positive mood after stress induction than those in control offices.'',
      effect_direction = ''beneficial'',
      population = ''Adults in virtual offices'',
      design = ''Between-subjects VR experiment'',
      outcome_measures = [''State anxiety'', ''Mood ratings''],
      doi = Some ''10.1016/j.envint.2019.105427'',
      quality = Some ''high'',
      notes = None\<rparr>"

definition yin2020_biophilic_vr_mood :: EvidenceItem where
  "yin2020_biophilic_vr_mood =
     \<lparr>EvidenceItem.id = ''yin2020_biophilic_vr_mood'',
      title = ''Effects of biophilic indoor environment on stress and anxiety recovery: A VR experiment'',
      summary = ''Biophilic interiors improved stress recovery and reduced anxiety, consistent with higher perceived naturalness and restorative quality.'',
      effect_direction = ''beneficial'',
      population = ''Adults in virtual offices'',
      design = ''Between-subjects VR experiment'',
      outcome_measures = [''Perceived restorativeness'', ''State anxiety''],
      doi = Some ''10.1016/j.envint.2019.105427'',
      quality = Some ''high'',
      notes = None\<rparr>"

subsection \<open>The registered edges\<close>

text \<open>
  The module runs fourteen \<open>register_edge\<close> calls at import time, in this order, on the
  dict that starts empty.
\<close>

definition EDGES :: edge_store where
  "EDGES = fold (\<lambda>register es. register es) [
     register_edge ''wood_coverage->perceived_warmth'' ''wood_coverage'' ''perceived_warmth''
       0.45 0.10 ''supported'' (Some [li2021_wood_use]),
     register_edge ''wood_coverage->perceived_naturalness'' ''wood_coverage'' ''perceived_naturalness''
       0.40 0.12 ''supported'' (Some [jalilzadehazhari2019_wood_surfaces]),
     register_edge ''plant_density->perceived_naturalness'' ''plant_density'' ''perceived_naturalness''
       0.50 0.12 ''experimentally_validated'' (Some [yin2020_biophilic_vr, lee2015_indoor_plants]),
     register_edge ''plant_density->positive_affect'' ''plant_density'' ''positive_affect''
       0.35 0.10 ''supported'' (Some [yin2020_biophilic_vr_positive]),
     register_edge ''spatial_clutter->cognitive_load'' ''spatial_clutter'' ''cognitive_load''
       0.30 0.10 ''hypothesized'' (Some []),
     register_edge ''glare_index->cognitive_load'' ''glare_index'' ''cognitive_load''
       0.35 0.10 ''hypothesized'' (Some []),
     register_edge ''perceived_warmth->positive_affect'' ''perceived_warmth'' ''positive_affect''
       0.25 0.08 ''hypothesized'' (Some []),
     register_edge ''perceived_naturalness->positive_affect'' ''perceived_naturalness'' ''positive_affect''
       0.40 0.09 ''supported'' (Some [yin2020_biophilic_vr_mood]),
     register_edge ''positive_affect->state_anxiety'' ''positive_affect'' ''state_anxiety''
       (- 0.50) 0.12 ''supported'' (Some []),
     register_edge ''cognitive_load->state_anxiety'' ''cognitive_load'' ''state_anxiety''
       0.30 0.11 ''hypothesized'' (Some []),
     register_edge ''cognitive_load->task_performance'' ''cognitive_load'' ''task_performance''
       (- 0.35) 0.10 ''supported'' (Some []),
     register_edge ''state_anxiety->task_performance'' ''state_anxiety'' ''task_performance''
       (- 0.30) 0.10 ''supported'' (Some []),
     register_edge ''perceived_naturalness->perceived_stress'' ''perceived_naturalness'' ''perceived_stress''
       (- 0.40) 0.10 ''supported'' (Some []),
     register_edge ''positive_affect->perceived_stress'' ''positive_affect'' ''perceived_stress''
       (- 0.35) 0.10 ''supported'' (Some [])
   ] []"

section \<open>The endpoints\<close>

text \<open>
  \<open>get_demo_graph\<close> walks \<open>EDGES.values()\<close> in insertion order and appends one brief
  \<open>GraphEdge\<close> per entry.
\<close>

definition get_demo_graph :: GraphPayload where
  "get_demo_graph =
     \<lparr>nodes = NODES,
      edges = map (\<lambda>ed. \<lparr>GraphEdge.id = EdgeDetail.id ed,
                          GraphEdge.from_node = EdgeDetail.from_node ed,
                          GraphEdge.to_node = EdgeDetail.to_node ed,
                          GraphEdge.status = EdgeDetail.status ed,
                          GraphEdge.param = EdgeDetail.param ed\<rparr>) (map snd EDGES)\<rparr>"

text \<open>
  \<open>EDGES.get(edge_id)\<close> is \<open>None\<close> for a missing key; \<open>not ed\<close> holds only then, since a
  pydantic model instance is always truthy.
\<close>

definition get_edge_detail :: "string \<Rightarrow> http_error + EdgeDetail" where
  "get_edge_detail edge_id =
     (case map_of EDGES edge_id of
        None \<Rightarrow> Inl (HTTPException 404 ''Edge not found'')
      | Some ed \<Rightarrow> Inr ed)"

subsection \<open>Prediction\<close>

text \<open>
  The local variables of \<open>predict\<close> are functions of the request, one definition per
  assignment of the source, in its order.
\<close>

definition perceived_warmth :: "PredictRequest \<Rightarrow> real" where
  "perceived_warmth request = 0.3 + 0.8 * wood_coverage request - 0.2 * glare_index request"

definition perceived_naturalness :: "PredictRequest \<Rightarrow> real" where
  "perceived_naturalness request =
     0.2 + 0.9 * wood_coverage request + 0.9 * plant_density request
       - 0.1 * spatial_clutter request"

definition cognitive_load :: "PredictRequest \<Rightarrow> real" where
  "cognitive_load request =
     0.5 + 0.4 * spatial_clutter request + 0.4 * glare_index request
       - 0.2 * plant_density request"

definition positive_affect :: "PredictRequest \<Rightarrow> real" where
  "positive_affect request =
     0.3 + 0.6 * perceived_warmth request + 0.5 * perceived_naturalness request
       - 0.3 * cognitive_load request"

definition state_anxiety :: "PredictRequest \<Rightarrow> real" where
  "state_anxiety request = 0.7 - 0.7 * positive_affect request + 0.4 * cognitive_load request"

definition perceived_stress :: "PredictRequest \<Rightarrow> real" where
  "perceived_stress request =
     0.6 - 0.6 * perceived_naturalness request - 0.5 * positive_affect request
       + 0.3 * cognitive_load request"

definition task_performance :: "PredictRequest \<Rightarrow> real" where
  "task_performance request =
     0.5 + 0.6 * positive_affect request - 0.5 * cognitive_load request
       - 0.4 * state_anxiety request"

definition clip01 :: "real \<Rightarrow> real" where
  "clip01 x = max 0 (min 1 x)"

definition model_a_nodes :: "PredictRequest \<Rightarrow> (string \<times> string \<times> real) list" where
  "model_a_nodes request = [
     (''perceived_warmth'', ''Perceived Warmth'', clip01 (perceived_warmth request)),
     (''perceived_naturalness'', ''Perceived Naturalness'', clip01 (perceived_naturalness request)),
     (''cognitive_load'', ''Cognitive Load'', clip01 (cognitive_load request)),
     (''positive_affect'', ''Positive Affect'', clip01 (positive_affect request)),
     (''state_anxiety'', ''State Anxiety'', clip01 (state_anxiety request)),
     (''perceived_stress'', ''Perceived Stress'', clip01 (perceived_stress request)),
     (''task_performance'', ''Task Performance'', clip01 (task_performance request))
   ]"

text \<open>
  The body of both \<open>for nid, label, val in ...\<close> loops, with the loop's \<open>width\<close> as a
  parameter (0.15 for Model A, 0.12 for Model B).
\<close>

definition node_prediction :: "real \<Rightarrow> string \<times> string \<times> real \<Rightarrow> NodePrediction" where
  "node_prediction width = (\<lambda>(nid, label', val).
     \<lparr>node_id = nid, NodePrediction.label = label', NodePrediction.mean = val,
      NodePrediction.ci_lower = max 0 (val - width),
      NodePrediction.ci_upper = min 1 (val + width)\<rparr>)"

definition synergy :: "PredictRequest \<Rightarrow> real" where
  "synergy request = 0.3 * wood_coverage request * plant_density request"

definition positive_affect_b :: "PredictRequest \<Rightarrow> real" where
  "positive_affect_b request = clip01 (positive_affect request + synergy request)"

definition state_anxiety_b :: "PredictRequest \<Rightarrow> real" where
  "state_anxiety_b request =
     clip01 (0.7 - 0.7 * positive_affect_b request + 0.4 * cognitive_load request)"

definition task_performance_b :: "PredictRequest \<Rightarrow> real" where
  "task_performance_b request =
     clip01 (0.5 + 0.6 * positive_affect_b request - 0.5 * cognitive_load request
               - 0.4 * state_anxiety_b request)"

definition perceived_stress_b :: "PredictRequest \<Rightarrow> real" where
  "perceived_stress_b request =
     clip01 (0.6 - 0.6 * perceived_naturalness request - 0.5 * positive_affect_b request
               + 0.3 * cognitive_load request)"

definition model_b_nodes :: "PredictRequest \<Rightarrow> (string \<times> string \<times> real) list" where
  "model_b_nodes request = [
     (''perceived_warmth'', ''Perceived Warmth'', clip01 (perceived_warmth request)),
     (''perceived_naturalness'', ''Perceived Naturalness'', clip01 (perceived_naturalness request)),
     (''cognitive_load'', ''Cognitive Load'', clip01 (cognitive_load request)),
     (''positive_affect'', ''Positive Affect'', positive_affect_b request),
     (''state_anxiety'', ''State Anxiety'', state_anxiety_b request),
     (''perceived_stress'', ''Perceived Stress'', perceived_stress_b request),
     (''task_performance'', ''Task Performance'', task_performance_b request)
   ]"

definition predict :: "PredictRequest \<Rightarrow> PredictResponse" where
  "predict request =
     \<lparr>model_a = map (node_prediction 0.15) (model_a_nodes request),
      model_b = map (node_prediction 0.12) (model_b_nodes request)\<rparr>"

section \<open>Vocabulary of the properties\<close>

text \<open>The request of the specification's first concrete scenario: all four inputs zero.\<close>

definition scenario_1 :: PredictRequest where
  "scenario_1 =
     \<lparr>wood_coverage = 0, plant_density = 0, spatial_clutter = 0, glare_index = 0\<rparr>"

text \<open>
  Steps 5, 6 and 7 of the specification's algorithm, as functions of the quantities they
  read, so that another positive affect can be substituted.
\<close>

definition spec_step5 :: "real \<Rightarrow> real \<Rightarrow> real" where
  "spec_step5 pa cl = 0.7 - 0.7 * pa + 0.4 * cl"

definition spec_step6 :: "real \<Rightarrow> real \<Rightarrow> real \<Rightarrow> real" where
  "spec_step6 pn pa cl = 0.6 - 0.6 * pn - 0.5 * pa + 0.3 * cl"

definition spec_step7 :: "real \<Rightarrow> real \<Rightarrow> real \<Rightarrow> real" where
  "spec_step7 pa cl sa = 0.5 + 0.6 * pa - 0.5 * cl - 0.4 * sa"

text \<open>What the specification asks of one prediction record.\<close>

definition valid_prediction :: "NodePrediction \<Rightarrow> bool" where
  "valid_prediction np \<longleftrightarrow>
     0 \<le> NodePrediction.mean np \<and> NodePrediction.mean np \<le> 1 \<and>
     NodePrediction.ci_lower np \<le> NodePrediction.mean np \<and>
     NodePrediction.mean np \<le> NodePrediction.ci_upper np \<and>
     0 \<le> NodePrediction.ci_lower np \<and> NodePrediction.ci_lower np \<le> 1 \<and>
     0 \<le> NodePrediction.ci_upper np \<and> NodePrediction.ci_upper np \<le> 1"

text \<open>Requests used as concrete instances below.\<close>

definition out_of_range_request :: PredictRequest where
  "out_of_range_request =
     \<lparr>wood_coverage = 5, plant_density = - 3, spatial_clutter = 100, glare_index = - 7\<rparr>"




definition no_plants_request :: PredictRequest where
  "no_plants_request =
     \<lparr>wood_coverage = 0.2, plant_density = 0, spatial_clutter = 0.5, glare_index = 0.1\<rparr>"

text \<open>
  The invariant of a store built by \<open>register_edge\<close> alone: keys are distinct, every
  entry is filed under its own id, and every parameter summary comes from \<open>p\<close> with the
  default width.
\<close>

definition store_wf :: "edge_store \<Rightarrow> bool" where
  "store_wf store \<longleftrightarrow>
     distinct (map fst store) \<and>
     (\<forall>(k, ed) \<in> set store.
        EdgeDetail.id ed = k \<and> (\<exists>m s. EdgeDetail.param ed = p m s 1.96))"

section \<open>Prediction: the propagation chain\<close>

lemmas chain_defs = perceived_warmth_def perceived_naturalness_def cognitive_load_def
  positive_affect_def state_anxiety_def perceived_stress_def task_performance_def

lemmas model_b_defs = synergy_def positive_affect_b_def state_anxiety_b_def
  task_performance_b_def perceived_stress_b_def

lemma means_model_a:
  "map NodePrediction.mean (model_a (predict r)) =
     [clip01 (perceived_warmth r), clip01 (perceived_naturalness r), clip01 (cognitive_load r),
      clip01 (positive_affect r), clip01 (state_anxiety r), clip01 (perceived_stress r),
      clip01 (task_performance r)]"
  by (simp add: predict_def model_a_nodes_def node_prediction_def)

lemma means_model_b:
  "map NodePrediction.mean (model_b (predict r)) =
     [clip01 (perceived_warmth r), clip01 (perceived_naturalness r), clip01 (cognitive_load r),
      positive_affect_b r, state_anxiety_b r, perceived_stress_b r, task_performance_b r]"
  by (simp add: predict_def model_b_nodes_def node_prediction_def)

lemma ids_labels_model_a:
  "map (\<lambda>np. (node_id np, NodePrediction.label np)) (model_a (predict r)) =
     [(''perceived_warmth'', ''Perceived Warmth''),
      (''perceived_naturalness'', ''Perceived Naturalness''),
      (''cognitive_load'', ''Cognitive Load''), (''positive_affect'', ''Positive Affect''),
      (''state_anxiety'', ''State Anxiety''), (''perceived_stress'', ''Perceived Stress''),
      (''task_performance'', ''Task Performance'')]"
  by (simp add: predict_def model_a_nodes_def node_prediction_def)

lemma ids_labels_model_b:
  "map (\<lambda>np. (node_id np, NodePrediction.label np)) (model_b (predict r)) =
     [(''perceived_warmth'', ''Perceived Warmth''),
      (''perceived_naturalness'', ''Perceived Naturalness''),
      (''cognitive_load'', ''Cognitive Load''), (''positive_affect'', ''Positive Affect''),
      (''state_anxiety'', ''State Anxiety''), (''perceived_stress'', ''Perceived Stress''),
      (''task_performance'', ''Task Performance'')]"
  by (simp add: predict_def model_b_nodes_def node_prediction_def)

lemma clip01_bounds: "0 \<le> clip01 x" "clip01 x \<le> 1"
  by (simp_all add: clip01_def)


lemma clip01_id: "0 \<le> x \<Longrightarrow> x \<le> 1 \<Longrightarrow> clip01 x = x"
  by (simp add: clip01_def)



text \<open>
  \<^bold>\<open>C1\<close> (as the code has it). For the all-zero request the chain gives perceived warmth
  0.3, perceived naturalness 0.2, cognitive load 0.5 and positive affect
  \<open>0.3 + 0.6 * 0.3 + 0.5 * 0.2 - 0.3 * 0.5 = 0.43\<close>; the downstream values follow from
  steps 5 to 7 at that positive affect: state anxiety 0.599, perceived stress 0.415, task
  performance 0.2684. No value is clipped, so both models report exactly these means.
\<close>

theorem scenario_1_chain:
  "perceived_warmth scenario_1 = 0.3 \<and> perceived_naturalness scenario_1 = 0.2 \<and>
   cognitive_load scenario_1 = 0.5 \<and> positive_affect scenario_1 = 0.43 \<and>
   state_anxiety scenario_1 = spec_step5 0.43 0.5 \<and> state_anxiety scenario_1 = 0.599 \<and>
   perceived_stress scenario_1 = spec_step6 0.2 0.43 0.5 \<and>
   perceived_stress scenario_1 = 0.415 \<and>
   task_performance scenario_1 = spec_step7 0.43 0.5 0.599 \<and>
   task_performance scenario_1 = 0.2684 \<and>
   map NodePrediction.mean (model_a (predict scenario_1))
     = [0.3, 0.2, 0.5, 0.43, 0.599, 0.415, 0.2684] \<and>
   map NodePrediction.mean (model_b (predict scenario_1))
     = [0.3, 0.2, 0.5, 0.43, 0.599, 0.415, 0.2684]"
  by (simp add: means_model_a means_model_b clip01_def chain_defs model_b_defs scenario_1_def
      spec_step5_def spec_step6_def spec_step7_def)

text \<open>
  The claim C1 as the specification words it puts positive affect at 0.33. The chain of the
  code, which is also the specification's own step 4, gives 0.43 there.
\<close>

theorem scenario_1_positive_affect_not_033:
  "positive_affect scenario_1 \<noteq> 0.33"
  by (simp add: chain_defs scenario_1_def)

section \<open>Prediction: what each model reports\<close>

lemma step7_clip_irrelevant:
  assumes "0 \<le> pa" "pa \<le> 1"
  shows "clip01 (spec_step7 pa cl (clip01 (spec_step5 pa cl)))
           = clip01 (spec_step7 pa cl (spec_step5 pa cl))"
proof -
  let ?sa = "spec_step5 pa cl"
  consider (lo) "?sa < 0" | (mid) "0 \<le> ?sa" "?sa \<le> 1" | (hi) "1 < ?sa" by linarith
  then show ?thesis
  proof cases
    case lo
    then have "clip01 ?sa = 0" by (simp add: clip01_def)
    moreover have "1 \<le> spec_step7 pa cl 0"
      using lo assms unfolding spec_step5_def spec_step7_def by linarith
    moreover have "1 \<le> spec_step7 pa cl s" if "s = ?sa" for s
      using that lo assms unfolding spec_step5_def spec_step7_def by linarith
    ultimately show ?thesis by (simp add: clip01_def)
  next
    case mid
    then show ?thesis by (simp add: clip01_def)
  next
    case hi
    then have "clip01 ?sa = 1" by (simp add: clip01_def)
    moreover have "spec_step7 pa cl 1 \<le> 0"
      using hi assms unfolding spec_step5_def spec_step7_def by linarith
    moreover have "spec_step7 pa cl s \<le> 0" if "s = ?sa" for s
      using that hi assms unfolding spec_step5_def spec_step7_def by linarith
    ultimately show ?thesis by (simp add: clip01_def)
  qed
qed

lemma model_b_means_clip01:
  "map NodePrediction.mean (model_b (predict r)) =
    (let pab = clip01 (positive_affect r + 0.3 * wood_coverage r * plant_density r) in
     [clip01 (perceived_warmth r), clip01 (perceived_naturalness r), clip01 (cognitive_load r),
      pab,
      clip01 (spec_step5 pab (cognitive_load r)),
      clip01 (spec_step6 (perceived_naturalness r) pab (cognitive_load r)),
      clip01 (spec_step7 pab (cognitive_load r) (spec_step5 pab (cognitive_load r)))])
   \<and> NodePrediction.mean (model_b (predict r) ! 6) =
      (let pab = clip01 (positive_affect r + 0.3 * wood_coverage r * plant_density r) in
       clip01 (spec_step7 pab (cognitive_load r) (clip01 (spec_step5 pab (cognitive_load r)))))
   \<and> NodePrediction.mean (model_b (predict r) ! 0) = NodePrediction.mean (model_a (predict r) ! 0)
   \<and> NodePrediction.mean (model_a (predict r) ! 0) = clip01 (perceived_warmth r)
   \<and> NodePrediction.mean (model_b (predict r) ! 2) = NodePrediction.mean (model_a (predict r) ! 2)
   \<and> NodePrediction.mean (model_a (predict r) ! 2) = clip01 (cognitive_load r)"
proof -
  let ?pab = "clip01 (positive_affect r + 0.3 * wood_coverage r * plant_density r)"
  have irrelevant:
    "clip01 (spec_step7 ?pab (cognitive_load r) (clip01 (spec_step5 ?pab (cognitive_load r))))
      = clip01 (spec_step7 ?pab (cognitive_load r) (spec_step5 ?pab (cognitive_load r)))"
    by (rule step7_clip_irrelevant[OF clip01_bounds])
  have b: "map NodePrediction.mean (model_b (predict r)) =
     [clip01 (perceived_warmth r), clip01 (perceived_naturalness r), clip01 (cognitive_load r),
      ?pab, clip01 (spec_step5 ?pab (cognitive_load r)),
      clip01 (spec_step6 (perceived_naturalness r) ?pab (cognitive_load r)),
      clip01 (spec_step7 ?pab (cognitive_load r) (clip01 (spec_step5 ?pab (cognitive_load r))))]"
    unfolding means_model_b
    by (simp add: model_b_defs spec_step5_def spec_step6_def spec_step7_def)
  have len: "length (model_b (predict r)) = 7" "length (model_a (predict r)) = 7"
    by (simp_all add: predict_def model_a_nodes_def model_b_nodes_def)
  have nth_b: "NodePrediction.mean (model_b (predict r) ! i)
      = map NodePrediction.mean (model_b (predict r)) ! i"
    if "i < 7" for i using that len by simp
  have nth_a: "NodePrediction.mean (model_a (predict r) ! i)
      = map NodePrediction.mean (model_a (predict r)) ! i"
    if "i < 7" for i using that len by simp
  have 6: "NodePrediction.mean (model_b (predict r) ! 6) =
      clip01 (spec_step7 ?pab (cognitive_load r) (clip01 (spec_step5 ?pab (cognitive_load r))))"
    by (simp add: nth_b b)
  have 0: "NodePrediction.mean (model_b (predict r) ! 0)
      = NodePrediction.mean (model_a (predict r) ! 0)"
    "NodePrediction.mean (model_a (predict r) ! 0) = clip01 (perceived_warmth r)"
    by (simp_all add: nth_b nth_a b means_model_a)
  have 2: "NodePrediction.mean (model_b (predict r) ! 2)
      = NodePrediction.mean (model_a (predict r) ! 2)"
    "NodePrediction.mean (model_a (predict r) ! 2) = clip01 (cognitive_load r)"
    by (simp_all add: nth_b nth_a b means_model_a)
  from b irrelevant 6 0 2 show ?thesis
    unfolding Let_def by simp
qed

lemma model_b_outcome_bounds:
  "0 \<le> NodePrediction.mean (model_b (predict r) ! 4) \<and>
   NodePrediction.mean (model_b (predict r) ! 4) \<le> 1 \<and>
   0 \<le> NodePrediction.mean (model_b (predict r) ! 5) \<and>
   NodePrediction.mean (model_b (predict r) ! 5) \<le> 1 \<and>
   0 \<le> NodePrediction.mean (model_b (predict r) ! 6) \<and>
   NodePrediction.mean (model_b (predict r) ! 6) \<le> 1"
  by (simp add: predict_def model_b_nodes_def node_prediction_def model_b_defs clip01_bounds)

text \<open>
  \<^bold>\<open>C2\<close>. For every request, Model B's means are, in order: the perceived warmth,
  perceived naturalness and cognitive load of the shared computation, each clipped, then
  \<open>positive_affect_b = max 0 (min 1 (positive_affect + 0.3 * wood_coverage * plant_density))\<close>,
  then steps 5, 6 and 7 re-evaluated with \<open>positive_affect_b\<close> in place of positive affect
  and with the shared cognitive load and perceived naturalness, each result clipped to
  \<open>[0,1]\<close>. Clipping is written out as \<open>max 0 (min 1 x)\<close>, the specification's own
  definition, and the three outcome means are shown to lie in \<open>[0,1]\<close>. The code feeds step 7
  the clipped state anxiety; feeding it the unclipped one gives the same clipped result
  (second conjunct), so both readings of the sentence hold. Perceived warmth and cognitive
  load are reported with the clipped values of Model A.
\<close>

theorem model_b_recomputes_steps_5_to_7:
  "map NodePrediction.mean (model_b (predict r)) =
    (let pab = max 0 (min 1 (positive_affect r + 0.3 * wood_coverage r * plant_density r)) in
     [max 0 (min 1 (perceived_warmth r)), max 0 (min 1 (perceived_naturalness r)),
      max 0 (min 1 (cognitive_load r)),
      pab,
      max 0 (min 1 (spec_step5 pab (cognitive_load r))),
      max 0 (min 1 (spec_step6 (perceived_naturalness r) pab (cognitive_load r))),
      max 0 (min 1 (spec_step7 pab (cognitive_load r) (spec_step5 pab (cognitive_load r))))])
   \<and> NodePrediction.mean (model_b (predict r) ! 6) =
      (let pab = max 0 (min 1 (positive_affect r + 0.3 * wood_coverage r * plant_density r)) in
       max 0 (min 1 (spec_step7 pab (cognitive_load r)
                       (max 0 (min 1 (spec_step5 pab (cognitive_load r)))))))
   \<and> NodePrediction.mean (model_b (predict r) ! 0) = NodePrediction.mean (model_a (predict r) ! 0)
   \<and> NodePrediction.mean (model_a (predict r) ! 0) = max 0 (min 1 (perceived_warmth r))
   \<and> NodePrediction.mean (model_b (predict r) ! 2) = NodePrediction.mean (model_a (predict r) ! 2)
   \<and> NodePrediction.mean (model_a (predict r) ! 2) = max 0 (min 1 (cognitive_load r))
   \<and> 0 \<le> NodePrediction.mean (model_b (predict r) ! 4)
   \<and> NodePrediction.mean (model_b (predict r) ! 4) \<le> 1
   \<and> 0 \<le> NodePrediction.mean (model_b (predict r) ! 5)
   \<and> NodePrediction.mean (model_b (predict r) ! 5) \<le> 1
   \<and> 0 \<le> NodePrediction.mean (model_b (predict r) ! 6)
   \<and> NodePrediction.mean (model_b (predict r) ! 6) \<le> 1
   \<and> map node_id (model_b (predict r)) =
       [''perceived_warmth'', ''perceived_naturalness'', ''cognitive_load'', ''positive_affect'',
        ''state_anxiety'', ''perceived_stress'', ''task_performance'']"
proof -
  note means = model_b_means_clip01[of r, unfolded clip01_def]
  have ids: "map node_id (model_b (predict r)) =
       [''perceived_warmth'', ''perceived_naturalness'', ''cognitive_load'', ''positive_affect'',
        ''state_anxiety'', ''perceived_stress'', ''task_performance'']"
    by (simp add: predict_def model_b_nodes_def node_prediction_def)
  from means model_b_outcome_bounds[of r] ids show ?thesis
    by (intro conjI) (elim conjE, assumption)+
qed

text \<open>
  At the out-of-range request the clipping is at work: perceived warmth 5.7 is reported as
  1, cognitive load 38.3 as 1, positive affect and task performance, both negative before
  clipping, as 0.
\<close>

lemma model_b_means_out_of_range:
  "map NodePrediction.mean (model_b (predict out_of_range_request)) = [1, 0, 1, 0, 1, 1, 0]"
  by (simp add: means_model_b model_b_defs chain_defs clip01_def out_of_range_request_def)

lemma node_prediction_valid:
  assumes "0 \<le> val" "val \<le> 1" "0 \<le> width"
  shows "valid_prediction (node_prediction width (nid, lbl, val))"
  using assms by (simp add: valid_prediction_def node_prediction_def)

lemma model_a_nodes_range:
  "(nid, lbl, val) \<in> set (model_a_nodes r) \<Longrightarrow> 0 \<le> val \<and> val \<le> 1"
  by (auto simp: model_a_nodes_def clip01_bounds)

lemma model_b_nodes_range:
  "(nid, lbl, val) \<in> set (model_b_nodes r) \<Longrightarrow> 0 \<le> val \<and> val \<le> 1"
  by (auto simp: model_b_nodes_def model_b_defs clip01_bounds)

text \<open>
  \<^bold>\<open>C5\<close>. For every request, in range or not, each of the seven Model A and seven Model B
  records has its mean in \<open>[0,1]\<close>, \<open>ci_lower \<le> mean \<le> ci_upper\<close>, and both bounds in
  \<open>[0,1]\<close>.
\<close>

theorem predictions_valid:
  "(\<forall>np \<in> set (model_a (predict r)) \<union> set (model_b (predict r)). valid_prediction np)
   \<and> length (model_a (predict r)) = 7 \<and> length (model_b (predict r)) = 7"
proof -
  have "valid_prediction np"
    if "np \<in> set (model_a (predict r)) \<union> set (model_b (predict r))" for np
  proof -
    from that consider (a) t where "t \<in> set (model_a_nodes r)" "np = node_prediction 0.15 t"
      | (b) t where "t \<in> set (model_b_nodes r)" "np = node_prediction 0.12 t"
      by (auto simp: predict_def)
    then show ?thesis
    proof cases
      case a
      obtain nid lbl val where t: "t = (nid, lbl, val)" by (cases t)
      with a model_a_nodes_range[of nid lbl val r] show ?thesis
        by (simp add: node_prediction_valid)
    next
      case b
      obtain nid lbl val where t: "t = (nid, lbl, val)" by (cases t)
      with b model_b_nodes_range[of nid lbl val r] show ?thesis
        by (simp add: node_prediction_valid)
    qed
  qed
  moreover have "length (model_a (predict r)) = 7" "length (model_b (predict r)) = 7"
    by (simp_all add: predict_def model_a_nodes_def model_b_nodes_def)
  ultimately show ?thesis by blast
qed

text \<open>An out-of-range request: perceived warmth is 5.7 before clipping.\<close>

theorem predictions_valid_witness:
  "\<lparr>node_id = ''perceived_warmth'', NodePrediction.label = ''Perceived Warmth'',
     NodePrediction.mean = 1, NodePrediction.ci_lower = 0.88, NodePrediction.ci_upper = 1\<rparr>
     \<in> set (model_a (predict out_of_range_request)) \<union> set (model_b (predict out_of_range_request))
   \<and> valid_prediction
       \<lparr>node_id = ''perceived_warmth'', NodePrediction.label = ''Perceived Warmth'',
         NodePrediction.mean = 1, NodePrediction.ci_lower = 0.88, NodePrediction.ci_upper = 1\<rparr>"
proof -
  have "\<lparr>node_id = ''perceived_warmth'', NodePrediction.label = ''Perceived Warmth'',
     NodePrediction.mean = 1, NodePrediction.ci_lower = 0.88, NodePrediction.ci_upper = 1\<rparr>
     \<in> set (model_b (predict out_of_range_request))"
    by (simp add: predict_def model_b_nodes_def node_prediction_def clip01_def
        perceived_warmth_def out_of_range_request_def)
  with predictions_valid[of out_of_range_request] show ?thesis by blast
qed


section \<open>Prediction: the two models compared\<close>




text \<open>
  \<^bold>\<open>C10\<close>. When \<open>wood_coverage * plant_density = 0\<close> and the unclipped positive affect and
  state anxiety lie in \<open>[0,1]\<close>, the seven Model B records carry the same node ids, labels
  and means as the Model A records: the models differ in the interval bounds only.
\<close>

theorem models_agree_without_synergy:
  assumes "wood_coverage r * plant_density r = 0"
    and "0 \<le> positive_affect r" "positive_affect r \<le> 1"
    and "0 \<le> state_anxiety r" "state_anxiety r \<le> 1"
  shows "map (\<lambda>np. (node_id np, NodePrediction.label np, NodePrediction.mean np))
            (model_b (predict r))
       = map (\<lambda>np. (node_id np, NodePrediction.label np, NodePrediction.mean np))
            (model_a (predict r))"
proof -
  have "synergy r = 0"
    using assms(1) by (simp add: synergy_def)
  then have pab: "positive_affect_b r = positive_affect r"
    using assms(2,3) by (simp add: positive_affect_b_def clip01_id)
  have sab: "state_anxiety_b r = state_anxiety r"
    using assms(4,5) by (simp add: state_anxiety_b_def pab clip01_id state_anxiety_def)
  have "positive_affect_b r = clip01 (positive_affect r)"
    using assms(2,3) by (simp add: pab clip01_id)
  moreover have "state_anxiety_b r = clip01 (state_anxiety r)"
    using assms(4,5) by (simp add: sab clip01_id)
  moreover have "perceived_stress_b r = clip01 (perceived_stress r)"
    by (simp add: perceived_stress_b_def perceived_stress_def pab)
  moreover have "task_performance_b r = clip01 (task_performance r)"
    by (simp add: task_performance_b_def task_performance_def pab sab)
  ultimately show ?thesis
    by (simp add: predict_def model_a_nodes_def model_b_nodes_def node_prediction_def)
qed

text \<open>A request without plants: the means agree and the lower bounds do not.\<close>

theorem models_agree_without_synergy_witness:
  "wood_coverage no_plants_request * plant_density no_plants_request = 0
   \<and> positive_affect no_plants_request = 0.507
   \<and> state_anxiety no_plants_request = 0.6411
   \<and> map NodePrediction.mean (model_b (predict no_plants_request))
       = map NodePrediction.mean (model_a (predict no_plants_request))
   \<and> map NodePrediction.ci_lower (model_b (predict no_plants_request))
       \<noteq> map NodePrediction.ci_lower (model_a (predict no_plants_request))"
proof -
  have h: "wood_coverage no_plants_request * plant_density no_plants_request = 0"
    "positive_affect no_plants_request = 0.507"
    "state_anxiety no_plants_request = 0.6411"
    by (simp_all add: chain_defs no_plants_request_def)
  have "map (\<lambda>np. (node_id np, NodePrediction.label np, NodePrediction.mean np))
            (model_b (predict no_plants_request))
       = map (\<lambda>np. (node_id np, NodePrediction.label np, NodePrediction.mean np))
            (model_a (predict no_plants_request))"
    by (rule models_agree_without_synergy) (simp_all add: h)
  then have "map (\<lambda>t. snd (snd t)) (map (\<lambda>np. (node_id np, NodePrediction.label np, NodePrediction.mean np))
            (model_b (predict no_plants_request)))
       = map (\<lambda>t. snd (snd t)) (map (\<lambda>np. (node_id np, NodePrediction.label np, NodePrediction.mean np))
            (model_a (predict no_plants_request)))"
    by (rule arg_cong)
  then have means: "map NodePrediction.mean (model_b (predict no_plants_request))
       = map NodePrediction.mean (model_a (predict no_plants_request))"
    by (simp add: comp_def)
  have ci: "map NodePrediction.ci_lower (model_b (predict no_plants_request))
       \<noteq> map NodePrediction.ci_lower (model_a (predict no_plants_request))"
    by (simp add: predict_def model_a_nodes_def model_b_nodes_def node_prediction_def
        clip01_def perceived_warmth_def no_plants_request_def)
  from h means ci show ?thesis by simp
qed

text \<open>
  \<^bold>\<open>C7\<close>. For every request each model's result is a list of exactly seven records, in the
  order perceived warmth, perceived naturalness, cognitive load, positive affect, state
  anxiety, perceived stress, task performance, and the (node id, label) pairs are those of
  the mediator and outcome nodes of \<open>NODES\<close>, in the order of \<open>NODES\<close>.
\<close>

theorem prediction_records_match_graph_nodes:
  "map (\<lambda>np. (node_id np, NodePrediction.label np)) (model_a (predict r)) =
     map (\<lambda>n. (GraphNode.id n, GraphNode.label n))
       (filter (\<lambda>n. level n = ''mediator'' \<or> level n = ''outcome'') NODES)
   \<and> map (\<lambda>np. (node_id np, NodePrediction.label np)) (model_b (predict r)) =
     map (\<lambda>n. (GraphNode.id n, GraphNode.label n))
       (filter (\<lambda>n. level n = ''mediator'' \<or> level n = ''outcome'') NODES)
   \<and> map node_id (model_a (predict r)) =
       [''perceived_warmth'', ''perceived_naturalness'', ''cognitive_load'', ''positive_affect'',
        ''state_anxiety'', ''perceived_stress'', ''task_performance'']
   \<and> map node_id (model_b (predict r)) =
       [''perceived_warmth'', ''perceived_naturalness'', ''cognitive_load'', ''positive_affect'',
        ''state_anxiety'', ''perceived_stress'', ''task_performance'']
   \<and> length (model_a (predict r)) = 7 \<and> length (model_b (predict r)) = 7"
proof -
  have nodes: "map (\<lambda>n. (GraphNode.id n, GraphNode.label n))
       (filter (\<lambda>n. level n = ''mediator'' \<or> level n = ''outcome'') NODES) =
     [(''perceived_warmth'', ''Perceived Warmth''),
      (''perceived_naturalness'', ''Perceived Naturalness''),
      (''cognitive_load'', ''Cognitive Load''), (''positive_affect'', ''Positive Affect''),
      (''state_anxiety'', ''State Anxiety''), (''perceived_stress'', ''Perceived Stress''),
      (''task_performance'', ''Task Performance'')]"
    by (simp add: NODES_def)
  have ids: "map node_id (model_a (predict r)) =
       [''perceived_warmth'', ''perceived_naturalness'', ''cognitive_load'', ''positive_affect'',
        ''state_anxiety'', ''perceived_stress'', ''task_performance'']"
    "map node_id (model_b (predict r)) =
       [''perceived_warmth'', ''perceived_naturalness'', ''cognitive_load'', ''positive_affect'',
        ''state_anxiety'', ''perceived_stress'', ''task_performance'']"
    by (simp_all add: predict_def model_a_nodes_def model_b_nodes_def node_prediction_def)
  have len: "length (model_a (predict r)) = 7" "length (model_b (predict r)) = 7"
    by (simp_all add: predict_def model_a_nodes_def model_b_nodes_def)
  show ?thesis
    unfolding nodes ids_labels_model_a ids_labels_model_b ids len by simp
qed

section \<open>The graph store\<close>

subsection \<open>Registration keeps the store well formed\<close>

lemma set_update_subset: "set (AList.update k v al) \<subseteq> insert (k, v) (set al)"
  by (induction al) auto

lemma store_wf_empty: "store_wf []"
  by (simp add: store_wf_def)

lemma store_wf_register_edge:
  assumes "store_wf store"
  shows "store_wf (register_edge edge_id f t m s st ev store)"
proof -
  let ?ed = "\<lparr>EdgeDetail.id = edge_id, EdgeDetail.from_node = f, EdgeDetail.to_node = t,
      EdgeDetail.status = st, EdgeDetail.param = p m s 1.96,
      evidence = (case ev of None \<Rightarrow> [] | Some [] \<Rightarrow> [] | Some (e # es) \<Rightarrow> e # es)\<rparr>"
  have "distinct (map fst (AList.update edge_id ?ed store))"
    using assms by (simp add: store_wf_def AList.distinct_update)
  moreover have "EdgeDetail.id ed = k \<and> (\<exists>m s. EdgeDetail.param ed = p m s 1.96)"
    if "(k, ed) \<in> set (AList.update edge_id ?ed store)" for k ed
  proof -
    from that set_update_subset[of edge_id ?ed store]
    have "(k, ed) = (edge_id, ?ed) \<or> (k, ed) \<in> set store" by auto
    then show ?thesis
    proof
      assume "(k, ed) = (edge_id, ?ed)"
      then show ?thesis by auto
    next
      assume "(k, ed) \<in> set store"
      with assms show ?thesis by (auto simp: store_wf_def)
    qed
  qed
  ultimately show ?thesis
    unfolding store_wf_def register_edge_def by blast
qed

lemma store_wf_EDGES: "store_wf EDGES"
  unfolding EDGES_def fold_simps o_apply
  by (intro store_wf_register_edge store_wf_empty)

subsection \<open>The registered data, evaluated\<close>

lemma EDGES_keys: "map fst EDGES = [
   ''wood_coverage->perceived_warmth'', ''wood_coverage->perceived_naturalness'',
   ''plant_density->perceived_naturalness'', ''plant_density->positive_affect'',
   ''spatial_clutter->cognitive_load'', ''glare_index->cognitive_load'',
   ''perceived_warmth->positive_affect'', ''perceived_naturalness->positive_affect'',
   ''positive_affect->state_anxiety'', ''cognitive_load->state_anxiety'',
   ''cognitive_load->task_performance'', ''state_anxiety->task_performance'',
   ''perceived_naturalness->perceived_stress'', ''positive_affect->perceived_stress'']"
  by (simp add: EDGES_def register_edge_def)

lemma EDGES_endpoints:
  "map (\<lambda>ed. (EdgeDetail.from_node ed, EdgeDetail.to_node ed)) (map snd EDGES) = [
     (''wood_coverage'', ''perceived_warmth''), (''wood_coverage'', ''perceived_naturalness''),
     (''plant_density'', ''perceived_naturalness''), (''plant_density'', ''positive_affect''),
     (''spatial_clutter'', ''cognitive_load''), (''glare_index'', ''cognitive_load''),
     (''perceived_warmth'', ''positive_affect''), (''perceived_naturalness'', ''positive_affect''),
     (''positive_affect'', ''state_anxiety''), (''cognitive_load'', ''state_anxiety''),
     (''cognitive_load'', ''task_performance''), (''state_anxiety'', ''task_performance''),
     (''perceived_naturalness'', ''perceived_stress''), (''positive_affect'', ''perceived_stress'')]"
  by (simp add: EDGES_def register_edge_def)

lemma lookup_wood_warmth: "map_of EDGES ''wood_coverage->perceived_warmth'' =
   Some \<lparr>EdgeDetail.id = ''wood_coverage->perceived_warmth'',
         EdgeDetail.from_node = ''wood_coverage'', EdgeDetail.to_node = ''perceived_warmth'',
         EdgeDetail.status = ''supported'', EdgeDetail.param = p 0.45 0.10 1.96,
         evidence = [li2021_wood_use]\<rparr>"
  by (simp add: EDGES_def register_edge_def)

lemma lookup_plant_naturalness: "map_of EDGES ''plant_density->perceived_naturalness'' =
   Some \<lparr>EdgeDetail.id = ''plant_density->perceived_naturalness'',
         EdgeDetail.from_node = ''plant_density'', EdgeDetail.to_node = ''perceived_naturalness'',
         EdgeDetail.status = ''experimentally_validated'', EdgeDetail.param = p 0.50 0.12 1.96,
         evidence = [yin2020_biophilic_vr, lee2015_indoor_plants]\<rparr>"
  by (simp add: EDGES_def register_edge_def)

lemma lookup_clutter_load: "map_of EDGES ''spatial_clutter->cognitive_load'' =
   Some \<lparr>EdgeDetail.id = ''spatial_clutter->cognitive_load'',
         EdgeDetail.from_node = ''spatial_clutter'', EdgeDetail.to_node = ''cognitive_load'',
         EdgeDetail.status = ''hypothesized'', EdgeDetail.param = p 0.30 0.10 1.96,
         evidence = []\<rparr>"
  by (simp add: EDGES_def register_edge_def)

lemma lookup_glare_load: "map_of EDGES ''glare_index->cognitive_load'' =
   Some \<lparr>EdgeDetail.id = ''glare_index->cognitive_load'',
         EdgeDetail.from_node = ''glare_index'', EdgeDetail.to_node = ''cognitive_load'',
         EdgeDetail.status = ''hypothesized'', EdgeDetail.param = p 0.35 0.10 1.96,
         evidence = []\<rparr>"
  by (simp add: EDGES_def register_edge_def)

subsection \<open>Parameter summaries\<close>

lemma p_interval:
  "ParamSummary.ci_lower (p m s w) = ParamSummary.mean (p m s w) - w * ParamSummary.sd (p m s w)"
  "ParamSummary.ci_upper (p m s w) = ParamSummary.mean (p m s w) + w * ParamSummary.sd (p m s w)"
  by (simp_all add: p_def)

lemma store_wf_interval:
  assumes "store_wf store" "(k, ed) \<in> set store"
  shows "ParamSummary.ci_lower (EdgeDetail.param ed)
           = ParamSummary.mean (EdgeDetail.param ed)
               - 1.96 * ParamSummary.sd (EdgeDetail.param ed)
       \<and> ParamSummary.ci_upper (EdgeDetail.param ed)
           = ParamSummary.mean (EdgeDetail.param ed)
               + 1.96 * ParamSummary.sd (EdgeDetail.param ed)"
proof -
  from assms obtain m s where "EdgeDetail.param ed = p m s 1.96"
    unfolding store_wf_def by blast
  then show ?thesis
    using p_interval[of m s "1.96"] by simp
qed

text \<open>
  \<^bold>\<open>C3\<close>. Every parameter summary the store holds, and so every one the graph listing
  returns, has \<open>ci_lower = mean - 1.96 * sd\<close> and \<open>ci_upper = mean + 1.96 * sd\<close>. Over the
  reals the equalities are exact.
\<close>

theorem param_summary_interval:
  "(\<forall>(k, ed) \<in> set EDGES.
      ParamSummary.ci_lower (EdgeDetail.param ed)
        = ParamSummary.mean (EdgeDetail.param ed)
            - 1.96 * ParamSummary.sd (EdgeDetail.param ed) \<and>
      ParamSummary.ci_upper (EdgeDetail.param ed)
        = ParamSummary.mean (EdgeDetail.param ed)
            + 1.96 * ParamSummary.sd (EdgeDetail.param ed))
   \<and> (\<forall>ge \<in> set (edges get_demo_graph).
      ParamSummary.ci_lower (GraphEdge.param ge)
        = ParamSummary.mean (GraphEdge.param ge)
            - 1.96 * ParamSummary.sd (GraphEdge.param ge) \<and>
      ParamSummary.ci_upper (GraphEdge.param ge)
        = ParamSummary.mean (GraphEdge.param ge)
            + 1.96 * ParamSummary.sd (GraphEdge.param ge))"
proof -
  let ?ok = "\<lambda>ps. ParamSummary.ci_lower ps = ParamSummary.mean ps - 1.96 * ParamSummary.sd ps \<and>
      ParamSummary.ci_upper ps = ParamSummary.mean ps + 1.96 * ParamSummary.sd ps"
  have store: "?ok (EdgeDetail.param ed)" if "(k, ed) \<in> set EDGES" for k ed
    using store_wf_interval[OF store_wf_EDGES that] .
  have listing: "?ok (GraphEdge.param ge)" if "ge \<in> set (edges get_demo_graph)" for ge
  proof -
    from that obtain x where x: "x \<in> set EDGES" "GraphEdge.param ge = EdgeDetail.param (snd x)"
      by (auto simp: get_demo_graph_def)
    obtain k ed where "x = (k, ed)" by (cases x)
    with x store[of k ed] show ?thesis by simp
  qed
  have "\<forall>(k, ed) \<in> set EDGES. ?ok (EdgeDetail.param ed)"
    using store by blast
  moreover have "\<forall>ge \<in> set (edges get_demo_graph). ?ok (GraphEdge.param ge)"
    using listing by blast
  ultimately show ?thesis by blast
qed

text \<open>The glare edge: mean 0.35, sd 0.10, interval from 0.154 to 0.546.\<close>

theorem param_summary_interval_witness:
  "\<exists>ed. (''glare_index->cognitive_load'', ed) \<in> set EDGES
      \<and> ParamSummary.mean (EdgeDetail.param ed) = 0.35
      \<and> ParamSummary.sd (EdgeDetail.param ed) = 0.10
      \<and> ParamSummary.ci_lower (EdgeDetail.param ed) = 0.154
      \<and> ParamSummary.ci_upper (EdgeDetail.param ed) = 0.546"
proof -
  let ?ed = "\<lparr>EdgeDetail.id = ''glare_index->cognitive_load'',
         EdgeDetail.from_node = ''glare_index'', EdgeDetail.to_node = ''cognitive_load'',
         EdgeDetail.status = ''hypothesized'', EdgeDetail.param = p 0.35 0.10 1.96,
         evidence = []\<rparr>"
  have mem: "(''glare_index->cognitive_load'', ?ed) \<in> set EDGES"
    by (rule map_of_SomeD[OF lookup_glare_load])
  have ms: "ParamSummary.mean (EdgeDetail.param ?ed) = 0.35"
    "ParamSummary.sd (EdgeDetail.param ?ed) = 0.10"
    by (simp_all add: p_def)
  from param_summary_interval[THEN conjunct1, THEN bspec, OF mem]
  have "ParamSummary.ci_lower (EdgeDetail.param ?ed)
        = ParamSummary.mean (EdgeDetail.param ?ed)
            - 1.96 * ParamSummary.sd (EdgeDetail.param ?ed)"
    "ParamSummary.ci_upper (EdgeDetail.param ?ed)
        = ParamSummary.mean (EdgeDetail.param ?ed)
            + 1.96 * ParamSummary.sd (EdgeDetail.param ?ed)"
    by simp_all
  then have "ParamSummary.ci_lower (EdgeDetail.param ?ed) = 0.154"
    "ParamSummary.ci_upper (EdgeDetail.param ?ed) = 0.546"
    unfolding ms by simp_all
  with mem ms show ?thesis by blast
qed

subsection \<open>Edge lookup\<close>

text \<open>
  \<open>get_edge_detail\<close> reads \<open>EDGES\<close> and nothing else, and no endpoint writes to it: the
  lookup is a function of the edge id, so two calls with one id return one result.
\<close>

lemma get_edge_detail_Inr:
  "get_edge_detail edge_id = Inr ed \<longleftrightarrow> (edge_id, ed) \<in> set EDGES"
proof -
  have "distinct (map fst EDGES)"
    using store_wf_EDGES by (simp add: store_wf_def)
  then have "map_of EDGES edge_id = Some ed \<longleftrightarrow> (edge_id, ed) \<in> set EDGES"
    by simp
  then show ?thesis
    by (cases "map_of EDGES edge_id") (auto simp: get_edge_detail_def)
qed

lemma get_edge_detail_Inl:
  "get_edge_detail edge_id = Inl e \<longleftrightarrow>
     edge_id \<notin> fst ` set EDGES \<and> e = HTTPException 404 ''Edge not found''"
proof (cases "map_of EDGES edge_id")
  case None
  then have "edge_id \<notin> fst ` set EDGES"
    by (simp add: map_of_eq_None_iff)
  with None show ?thesis
    by (auto simp: get_edge_detail_def)
next
  case (Some ed)
  then have "(edge_id, ed) \<in> set EDGES"
    by (rule map_of_SomeD)
  then have "edge_id \<in> fst ` set EDGES"
    by force
  with Some show ?thesis
    by (simp add: get_edge_detail_def)
qed

text \<open>
  \<^bold>\<open>C4\<close>. For every string \<open>edge_id\<close>: when it is a registered id, the lookup returns the
  one detail registered under it, whose own id is \<open>edge_id\<close>; the lookup fails, with status
  404 and the message \<^verbatim>\<open>Edge not found\<close>, exactly when \<open>edge_id\<close> is not registered; it
  raises no other error, and whatever detail it returns has the id that was asked for.
\<close>

theorem edge_detail_lookup:
  "(edge_id \<in> fst ` set EDGES \<longrightarrow>
      (\<exists>ed. get_edge_detail edge_id = Inr ed \<and> (edge_id, ed) \<in> set EDGES
          \<and> EdgeDetail.id ed = edge_id
          \<and> (\<forall>ed'. (edge_id, ed') \<in> set EDGES \<longrightarrow> ed' = ed)))
   \<and> (get_edge_detail edge_id = Inl (HTTPException 404 ''Edge not found'')
        \<longleftrightarrow> edge_id \<notin> fst ` set EDGES)
   \<and> (\<forall>e. get_edge_detail edge_id = Inl e \<longrightarrow> e = HTTPException 404 ''Edge not found'')
   \<and> (\<forall>ed. get_edge_detail edge_id = Inr ed \<longrightarrow> EdgeDetail.id ed = edge_id)"
proof -
  have ident: "EdgeDetail.id ed = k" if "(k, ed) \<in> set EDGES" for k ed
    using that store_wf_EDGES unfolding store_wf_def by blast
  have a: "\<exists>ed. get_edge_detail edge_id = Inr ed \<and> (edge_id, ed) \<in> set EDGES
          \<and> EdgeDetail.id ed = edge_id
          \<and> (\<forall>ed'. (edge_id, ed') \<in> set EDGES \<longrightarrow> ed' = ed)"
    if "edge_id \<in> fst ` set EDGES"
  proof -
    from that obtain ed where ed: "(edge_id, ed) \<in> set EDGES" by auto
    then have r: "get_edge_detail edge_id = Inr ed"
      by (simp add: get_edge_detail_Inr)
    have "ed' = ed" if "(edge_id, ed') \<in> set EDGES" for ed'
    proof -
      from that have "get_edge_detail edge_id = Inr ed'"
        by (simp add: get_edge_detail_Inr)
      with r show ?thesis by simp
    qed
    with r ed ident[OF ed] show ?thesis by blast
  qed
  have b: "get_edge_detail edge_id = Inl (HTTPException 404 ''Edge not found'')
        \<longleftrightarrow> edge_id \<notin> fst ` set EDGES"
    by (simp add: get_edge_detail_Inl)
  have c: "\<forall>e. get_edge_detail edge_id = Inl e \<longrightarrow> e = HTTPException 404 ''Edge not found''"
    by (simp add: get_edge_detail_Inl)
  have d: "\<forall>ed. get_edge_detail edge_id = Inr ed \<longrightarrow> EdgeDetail.id ed = edge_id"
    using ident by (simp add: get_edge_detail_Inr)
  from a b c d show ?thesis by blast
qed

text \<open>
  The specification's scenarios 2 and 3: the plant-density edge is experimentally validated
  with two evidence items; \<^verbatim>\<open>foo->bar\<close> is not found.
\<close>

theorem edge_detail_lookup_witness:
  "''plant_density->perceived_naturalness'' \<in> fst ` set EDGES
   \<and> (\<exists>ed. get_edge_detail ''plant_density->perceived_naturalness'' = Inr ed
         \<and> EdgeDetail.id ed = ''plant_density->perceived_naturalness''
         \<and> EdgeDetail.status ed = ''experimentally_validated''
         \<and> length (evidence ed) = 2)
   \<and> ''foo->bar'' \<notin> fst ` set EDGES
   \<and> get_edge_detail ''foo->bar'' = Inl (HTTPException 404 ''Edge not found'')"
proof -
  let ?ed = "\<lparr>EdgeDetail.id = ''plant_density->perceived_naturalness'',
         EdgeDetail.from_node = ''plant_density'', EdgeDetail.to_node = ''perceived_naturalness'',
         EdgeDetail.status = ''experimentally_validated'', EdgeDetail.param = p 0.50 0.12 1.96,
         evidence = [yin2020_biophilic_vr, lee2015_indoor_plants]\<rparr>"
  have keys: "fst ` set EDGES = set (map fst EDGES)" by simp
  have in1: "''plant_density->perceived_naturalness'' \<in> fst ` set EDGES"
    unfolding keys EDGES_keys by simp
  have out: "''foo->bar'' \<notin> fst ` set EDGES"
    unfolding keys EDGES_keys by simp
  have mem: "(''plant_density->perceived_naturalness'', ?ed) \<in> set EDGES"
    by (rule map_of_SomeD[OF lookup_plant_naturalness])
  from edge_detail_lookup[of "''plant_density->perceived_naturalness''"] in1
  obtain ed where ed: "get_edge_detail ''plant_density->perceived_naturalness'' = Inr ed"
    "EdgeDetail.id ed = ''plant_density->perceived_naturalness''"
    "\<forall>ed'. (''plant_density->perceived_naturalness'', ed') \<in> set EDGES \<longrightarrow> ed' = ed"
    by blast
  from ed(3) mem have "ed = ?ed" by blast
  then have "EdgeDetail.status ed = ''experimentally_validated''" "length (evidence ed) = 2"
    by simp_all
  moreover from edge_detail_lookup[of "''foo->bar''"] out
  have "get_edge_detail ''foo->bar'' = Inl (HTTPException 404 ''Edge not found'')"
    by blast
  ultimately show ?thesis
    using in1 out ed(1,2) by blast
qed

subsection \<open>The graph listing\<close>

lemma listing_endpoints:
  "map (\<lambda>e. (GraphEdge.from_node e, GraphEdge.to_node e)) (edges get_demo_graph) = [
     (''wood_coverage'', ''perceived_warmth''), (''wood_coverage'', ''perceived_naturalness''),
     (''plant_density'', ''perceived_naturalness''), (''plant_density'', ''positive_affect''),
     (''spatial_clutter'', ''cognitive_load''), (''glare_index'', ''cognitive_load''),
     (''perceived_warmth'', ''positive_affect''), (''perceived_naturalness'', ''positive_affect''),
     (''positive_affect'', ''state_anxiety''), (''cognitive_load'', ''state_anxiety''),
     (''cognitive_load'', ''task_performance''), (''state_anxiety'', ''task_performance''),
     (''perceived_naturalness'', ''perceived_stress''), (''positive_affect'', ''perceived_stress'')]"
proof -
  have "map (\<lambda>e. (GraphEdge.from_node e, GraphEdge.to_node e)) (edges get_demo_graph)
      = map (\<lambda>ed. (EdgeDetail.from_node ed, EdgeDetail.to_node ed)) (map snd EDGES)"
    by (simp add: get_demo_graph_def)
  then show ?thesis
    by (simp only: EDGES_endpoints)
qed

lemma listing_node_ids:
  "map GraphNode.id (nodes get_demo_graph) =
     [''wood_coverage'', ''plant_density'', ''spatial_clutter'', ''glare_index'',
      ''perceived_warmth'', ''perceived_naturalness'', ''cognitive_load'', ''positive_affect'',
      ''state_anxiety'', ''perceived_stress'', ''task_performance'']"
  by (simp add: get_demo_graph_def NODES_def)

text \<open>
  \<^bold>\<open>C8\<close>. Every edge of the graph listing starts and ends at the id of a node of the same
  listing.
\<close>

theorem edges_reference_listed_nodes:
  "\<forall>e \<in> set (edges get_demo_graph).
     GraphEdge.from_node e \<in> set (map GraphNode.id (nodes get_demo_graph)) \<and>
     GraphEdge.to_node e \<in> set (map GraphNode.id (nodes get_demo_graph))"
proof
  fix e assume "e \<in> set (edges get_demo_graph)"
  then have "(GraphEdge.from_node e, GraphEdge.to_node e)
      \<in> set (map (\<lambda>e. (GraphEdge.from_node e, GraphEdge.to_node e)) (edges get_demo_graph))"
    by (simp add: image_iff) blast
  then show "GraphEdge.from_node e \<in> set (map GraphNode.id (nodes get_demo_graph)) \<and>
     GraphEdge.to_node e \<in> set (map GraphNode.id (nodes get_demo_graph))"
    unfolding listing_endpoints listing_node_ids by auto
qed

lemma listed_brief:
  assumes "(k, ed) \<in> set EDGES"
  shows "\<lparr>GraphEdge.id = EdgeDetail.id ed, GraphEdge.from_node = EdgeDetail.from_node ed,
           GraphEdge.to_node = EdgeDetail.to_node ed, GraphEdge.status = EdgeDetail.status ed,
           GraphEdge.param = EdgeDetail.param ed\<rparr> \<in> set (edges get_demo_graph)"
proof -
  from assms have "ed \<in> snd ` set EDGES" by force
  then show ?thesis
    by (simp add: get_demo_graph_def image_iff) blast
qed

text \<open>The clutter edge is listed, and both its ends are listed nodes.\<close>

theorem edges_reference_listed_nodes_witness:
  "\<lparr>GraphEdge.id = ''spatial_clutter->cognitive_load'',
     GraphEdge.from_node = ''spatial_clutter'', GraphEdge.to_node = ''cognitive_load'',
     GraphEdge.status = ''hypothesized'', GraphEdge.param = p 0.30 0.10 1.96\<rparr>
     \<in> set (edges get_demo_graph)
   \<and> ''spatial_clutter'' \<in> set (map GraphNode.id (nodes get_demo_graph))
   \<and> ''cognitive_load'' \<in> set (map GraphNode.id (nodes get_demo_graph))"
proof -
  let ?ge = "\<lparr>GraphEdge.id = ''spatial_clutter->cognitive_load'',
     GraphEdge.from_node = ''spatial_clutter'', GraphEdge.to_node = ''cognitive_load'',
     GraphEdge.status = ''hypothesized'', GraphEdge.param = p 0.30 0.10 1.96\<rparr>"
  have mem: "?ge \<in> set (edges get_demo_graph)"
    using listed_brief[OF map_of_SomeD[OF lookup_clutter_load]] by simp
  from edges_reference_listed_nodes[THEN bspec, OF mem] mem
  show ?thesis by simp
qed

lemma brief_lookup:
  assumes "distinct (map fst al)" and "\<forall>(k, v) \<in> set al. key v = k"
    and "(k, v) \<in> set al" and "\<And>x. gid (proj x) = key x"
  shows "filter (\<lambda>g. gid g = k) (map proj (map snd al)) = [proj v]"
  using assms(1-3)
proof (induction al)
  case Nil
  then show ?case by simp
next
  case (Cons a al)
  obtain k' v' where a: "a = (k', v')" by (cases a)
  show ?case
  proof (cases "k' = k")
    case True
    with Cons.prems a have "v' = v"
      by (auto simp: image_iff)
    have "key x \<noteq> k" if "x \<in> snd ` set al" for x
    proof -
      from that obtain kx where "(kx, x) \<in> set al" by auto
      with Cons.prems a True have "key x = kx" "kx \<noteq> k" by (auto simp: image_iff)
      then show ?thesis by simp
    qed
    then have "filter (\<lambda>g. gid g = k) (map proj (map snd al)) = []"
      by (auto simp: filter_empty_conv assms(4))
    with a True \<open>v' = v\<close> Cons.prems show ?thesis
      by (auto simp: assms(4))
  next
    case False
    with Cons.prems a have "(k, v) \<in> set al" "key v' = k'" by auto
    with Cons.IH Cons.prems a False show ?thesis
      by (auto simp: assms(4))
  qed
qed

lemma brief_of_lookup:
  assumes r: "get_edge_detail edge_id = Inr ed"
  shows "filter (\<lambda>ge. GraphEdge.id ge = edge_id) (edges get_demo_graph) =
       [\<lparr>GraphEdge.id = EdgeDetail.id ed, GraphEdge.from_node = EdgeDetail.from_node ed,
         GraphEdge.to_node = EdgeDetail.to_node ed, GraphEdge.status = EdgeDetail.status ed,
         GraphEdge.param = EdgeDetail.param ed\<rparr>]"
proof -
  from r have mem: "(edge_id, ed) \<in> set EDGES" by (simp add: get_edge_detail_Inr)
  have d: "distinct (map fst EDGES)" and k: "\<forall>(k, v) \<in> set EDGES. EdgeDetail.id v = k"
    using store_wf_EDGES unfolding store_wf_def by blast+
  show ?thesis
    unfolding get_demo_graph_def GraphPayload.simps
    by (rule brief_lookup[OF d k mem]) simp
qed

text \<open>
  \<^bold>\<open>C9\<close>. For every registered edge id the lookup returns a detail \<open>ed\<close>, and the edges of
  the bulk listing that carry this id are exactly one: the record with the id, from-node,
  to-node, status and parameter summary of \<open>ed\<close>. A \<open>GraphEdge\<close> has no other field, so the
  brief form is the detail without its evidence list.
\<close>

theorem brief_edge_is_projection_of_detail:
  "edge_id \<in> fst ` set EDGES \<Longrightarrow>
     \<exists>ed. get_edge_detail edge_id = Inr ed \<and>
       filter (\<lambda>ge. GraphEdge.id ge = edge_id) (edges get_demo_graph) =
         [\<lparr>GraphEdge.id = EdgeDetail.id ed, GraphEdge.from_node = EdgeDetail.from_node ed,
           GraphEdge.to_node = EdgeDetail.to_node ed, GraphEdge.status = EdgeDetail.status ed,
           GraphEdge.param = EdgeDetail.param ed\<rparr>]
       \<and> EdgeDetail.id ed = edge_id"
proof -
  assume "edge_id \<in> fst ` set EDGES"
  then obtain ed where mem: "(edge_id, ed) \<in> set EDGES" by auto
  then have r: "get_edge_detail edge_id = Inr ed"
    by (simp add: get_edge_detail_Inr)
  have "EdgeDetail.id ed = edge_id"
    using mem store_wf_EDGES unfolding store_wf_def by blast
  with r brief_of_lookup[OF r] show ?thesis by blast
qed

text \<open>The first registered edge: its detail carries one evidence item, its brief form none.\<close>

theorem brief_edge_is_projection_of_detail_witness:
  "''wood_coverage->perceived_warmth'' \<in> fst ` set EDGES
   \<and> get_edge_detail ''wood_coverage->perceived_warmth'' =
     Inr \<lparr>EdgeDetail.id = ''wood_coverage->perceived_warmth'',
         EdgeDetail.from_node = ''wood_coverage'', EdgeDetail.to_node = ''perceived_warmth'',
         EdgeDetail.status = ''supported'', EdgeDetail.param = p 0.45 0.10 1.96,
         evidence = [li2021_wood_use]\<rparr>
   \<and> filter (\<lambda>ge. GraphEdge.id ge = ''wood_coverage->perceived_warmth'') (edges get_demo_graph) =
       [\<lparr>GraphEdge.id = ''wood_coverage->perceived_warmth'',
          GraphEdge.from_node = ''wood_coverage'', GraphEdge.to_node = ''perceived_warmth'',
          GraphEdge.status = ''supported'', GraphEdge.param = p 0.45 0.10 1.96\<rparr>]"
proof -
  have keys: "fst ` set EDGES = set (map fst EDGES)" by simp
  have reg: "''wood_coverage->perceived_warmth'' \<in> fst ` set EDGES"
    unfolding keys EDGES_keys by simp
  have r: "get_edge_detail ''wood_coverage->perceived_warmth'' =
     Inr \<lparr>EdgeDetail.id = ''wood_coverage->perceived_warmth'',
         EdgeDetail.from_node = ''wood_coverage'', EdgeDetail.to_node = ''perceived_warmth'',
         EdgeDetail.status = ''supported'', EdgeDetail.param = p 0.45 0.10 1.96,
         evidence = [li2021_wood_use]\<rparr>"
    by (simp add: get_edge_detail_def lookup_wood_warmth)
  from brief_edge_is_projection_of_detail[OF reg] r reg show ?thesis by auto
qed

end
